theory Spec2Isabelle
  imports Main "HOL-Library.AList" "HOL-Library.Sublist"
begin

section \<open>Parsed documents and Python's container operations\<close>

text \<open>
  \<^verbatim>\<open>remove_unused_swagger_endpoints.py\<close> loads \<^verbatim>\<open>swagger.yaml\<close> with
  \<^verbatim>\<open>yaml.safe_load\<close>, deletes a fixed list of keys from the \<^verbatim>\<open>paths\<close> mapping,
  appends a note to \<^verbatim>\<open>info.description\<close>, dumps the document back and writes a
  Markdown report; a backup copy made first is copied back when anything raises.

  A loaded document is a tree of Python values. A \<^verbatim>\<open>dict\<close> keeps insertion order,
  so a mapping is an association list (keys are values themselves: YAML keys need not be
  strings). \<open>YScalar\<close> stands for the scalar kinds the script never looks into (floats,
  timestamps, binary), carried by their source text. Documents are trees: objects shared
  through YAML anchors and aliases are outside this model.
\<close>

datatype yaml =
    YNull
  | YBool bool
  | YInt int
  | YScalar string
  | YStr string
  | YSeq "yaml list"
  | YMap "(yaml \<times> yaml) list"

datatype error =
    TypeError
  | AttributeError
  | KeyError
  | FileNotFoundError
  | OSError
  | YAMLError

text \<open>
  \<^verbatim>\<open>s in x\<close> for a string \<open>s\<close>: key membership in a dict, element membership in a
  list, substring test in a string, \<^verbatim>\<open>TypeError\<close> for everything else
  (\<^verbatim>\<open>argument of type 'NoneType' is not iterable\<close>).
\<close>

fun py_in :: "string \<Rightarrow> yaml \<Rightarrow> error + bool" where
  "py_in s (YMap m) = Inr (map_of m (YStr s) \<noteq> None)"
| "py_in s (YSeq xs) = Inr (YStr s \<in> set xs)"
| "py_in s (YStr t) = Inr (sublist s t)"
| "py_in s _ = Inl TypeError"

text \<open>\<^verbatim>\<open>x[s]\<close> for a string \<open>s\<close>: only a dict can be indexed by a string.\<close>

fun py_getitem :: "yaml \<Rightarrow> string \<Rightarrow> error + yaml" where
  "py_getitem (YMap m) s =
     (case map_of m (YStr s) of None \<Rightarrow> Inl KeyError | Some v \<Rightarrow> Inr v)"
| "py_getitem _ s = Inl TypeError"

text \<open>
  \<^verbatim>\<open>x[s] = v\<close>: a dict replaces the value of an existing key where it stands and
  appends a new key at the end.
\<close>

fun py_setitem :: "yaml \<Rightarrow> string \<Rightarrow> yaml \<Rightarrow> error + yaml" where
  "py_setitem (YMap m) s v = Inr (YMap (AList.update (YStr s) v m))"
| "py_setitem _ s v = Inl TypeError"

text \<open>\<^verbatim>\<open>del x[s]\<close>: a dict drops the entry of that key and raises when there is none.\<close>

fun py_delitem :: "yaml \<Rightarrow> string \<Rightarrow> error + yaml" where
  "py_delitem (YMap m) s =
     (if map_of m (YStr s) = None then Inl KeyError
      else Inr (YMap (AList.delete (YStr s) m)))"
| "py_delitem _ s = Inl TypeError"

text \<open>
  \<^verbatim>\<open>len(x)\<close>: dicts, lists and strings have a length, other values raise. The
  script only prints the number; for a string the model counts the characters of its
  encoding.
\<close>

fun py_len :: "yaml \<Rightarrow> error + nat" where
  "py_len (YMap m) = Inr (length m)"
| "py_len (YSeq xs) = Inr (length xs)"
| "py_len (YStr t) = Inr (length t)"
| "py_len _ = Inl TypeError"

text \<open>\<^verbatim>\<open>x.get(s, d)\<close>: only a dict has the method.\<close>

fun py_get :: "yaml \<Rightarrow> string \<Rightarrow> yaml \<Rightarrow> error + yaml" where
  "py_get (YMap m) s d = Inr (case map_of m (YStr s) of None \<Rightarrow> d | Some v \<Rightarrow> v)"
| "py_get _ s d = Inl AttributeError"

section \<open>The endpoint remover\<close>

text \<open>The literal list of lines 24 to 70, in the order of the source.\<close>

definition unused_endpoints :: "string list" where
  "unused_endpoints =
    [''/journal-entries/auto-generate/purchase'',
     ''/journal-entries/auto-generate/sale'',
     ''/journal-entries/{id}/post'',
     ''/journal-entries/{id}/reverse'',
     ''/journal-entries/summary'',
     ''/accounts/{account_id}/journal-entries'',
     ''/api/admin/check-cashbank-gl-links'',
     ''/api/admin/fix-cashbank-gl-links'',
     ''/api/monitoring/balance-health'',
     ''/api/monitoring/balance-sync'',
     ''/api/monitoring/discrepancies'',
     ''/api/monitoring/fix-discrepancies'',
     ''/api/monitoring/sync-status'',
     ''/api/payments/debug/recent'',
     ''/api/payments/analytics'',
     ''/api/payments/export/excel'',
     ''/api/payments/report/pdf'',
     ''/api/payments/{id}/pdf'',
     ''/api/reports/enhanced/financial-metrics'',
     ''/api/reports/enhanced/profit-loss'',
     ''/api/reports/enhanced/profit-loss-comparison'',
     ''/api/v1/admin/security/alerts'',
     ''/api/v1/admin/security/alerts/{id}/acknowledge'',
     ''/api/v1/admin/security/cleanup'',
     ''/api/v1/admin/security/config'',
     ''/api/v1/admin/security/incidents'',
     ''/api/v1/admin/security/incidents/{id}'',
     ''/api/v1/admin/security/incidents/{id}/resolve'',
     ''/api/v1/admin/security/ip-whitelist'',
     ''/api/v1/admin/security/metrics'']"

text \<open>
  The loop of lines 83 to 89 over the value \<open>p\<close> of \<^verbatim>\<open>swagger_data['paths']\<close>,
  with the counter \<^verbatim>\<open>removed_count\<close>. The object is mutated in place; the model
  returns it.
\<close>

fun remove_loop :: "string list \<Rightarrow> yaml \<Rightarrow> nat \<Rightarrow> error + (yaml \<times> nat)" where
  "remove_loop [] p removed_count = Inr (p, removed_count)"
| "remove_loop (endpoint # rest) p removed_count =
     (case py_in endpoint p of
        Inl e \<Rightarrow> Inl e
      | Inr True \<Rightarrow>
          (case py_delitem p endpoint of
             Inl e \<Rightarrow> Inl e
           | Inr p' \<Rightarrow> remove_loop rest p' (removed_count + 1))
      | Inr False \<Rightarrow> remove_loop rest p removed_count)"

text \<open>
  Lines 79 to 92: the removal step on the loaded document, giving the document after
  the deletions and \<^verbatim>\<open>removed_count\<close>. The two \<^verbatim>\<open>len\<close> calls only feed a
  progress line, but they raise on a value without a length.
\<close>

definition remove_step :: "yaml \<Rightarrow> error + (yaml \<times> nat)" where
  "remove_step swagger_data =
     (case py_in ''paths'' swagger_data of
        Inl e \<Rightarrow> Inl e
      | Inr False \<Rightarrow> Inr (swagger_data, 0)
      | Inr True \<Rightarrow>
          (case py_getitem swagger_data ''paths'' of
             Inl e \<Rightarrow> Inl e
           | Inr p \<Rightarrow>
               (case py_len p of
                  Inl e \<Rightarrow> Inl e
                | Inr original_count \<Rightarrow>
                    (case remove_loop unused_endpoints p 0 of
                       Inl e \<Rightarrow> Inl e
                     | Inr (p', removed_count) \<Rightarrow>
                         (case py_len p' of
                            Inl e \<Rightarrow> Inl e
                          | Inr new_count \<Rightarrow>
                              (case py_setitem swagger_data ''paths'' p' of
                                 Inl e \<Rightarrow> Inl e
                               | Inr swagger_data' \<Rightarrow>
                                   Inr (swagger_data', removed_count)))))))"

text \<open>The keys of a mapping and the value a document holds under a string key.\<close>

fun keys :: "yaml \<Rightarrow> yaml set" where
  "keys (YMap m) = fst ` set m"
| "keys _ = {}"

fun lookup :: "yaml \<Rightarrow> string \<Rightarrow> yaml option" where
  "lookup (YMap m) s = map_of m (YStr s)"
| "lookup _ s = None"

fun is_mapping :: "yaml \<Rightarrow> bool" where
  "is_mapping (YMap m) = True"
| "is_mapping _ = False"

section \<open>The description annotator\<close>

text \<open>
  A replacement field of an f-string formats a \<^verbatim>\<open>str\<close> as itself and any other
  value through \<^verbatim>\<open>str()\<close>, which is a parameter of the model.
\<close>

fun format_value :: "(yaml \<Rightarrow> string) \<Rightarrow> yaml \<Rightarrow> string" where
  "format_value py_str (YStr s) = s"
| "format_value py_str v = py_str v"

text \<open>
  The text line 99 puts after the description; \<open>today\<close> is
  \<^verbatim>\<open>datetime.now().strftime('%Y-%m-%d')\<close>.
\<close>

definition cleanup_note :: "string \<Rightarrow> string" where
  "cleanup_note today =
     [CHR ''\<newline>'', CHR ''\<newline>''] @
     ''NOTE: Unused endpoints have been removed based on frontend usage analysis performed on '' @
     today @ ''.''"

text \<open>Lines 95 to 99.\<close>

definition annotate :: "string \<Rightarrow> (yaml \<Rightarrow> string) \<Rightarrow> yaml \<Rightarrow> error + yaml" where
  "annotate today py_str swagger_data =
     (case py_in ''info'' swagger_data of
        Inl e \<Rightarrow> Inl e
      | Inr present \<Rightarrow>
          (case (if present then Inr swagger_data
                 else py_setitem swagger_data ''info'' (YMap [])) of
             Inl e \<Rightarrow> Inl e
           | Inr data1 \<Rightarrow>
               (case py_getitem data1 ''info'' of
                  Inl e \<Rightarrow> Inl e
                | Inr info \<Rightarrow>
                    (case py_get info ''description'' (YStr []) of
                       Inl e \<Rightarrow> Inl e
                     | Inr original_description \<Rightarrow>
                         (case py_setitem info ''description''
                                 (YStr (format_value py_str original_description @
                                        cleanup_note today)) of
                            Inl e \<Rightarrow> Inl e
                          | Inr info' \<Rightarrow> py_setitem data1 ''info'' info')))))"

text \<open>Lines 79 to 99 together: what the script does to the loaded document.\<close>

definition transform :: "string \<Rightarrow> (yaml \<Rightarrow> string) \<Rightarrow> yaml \<Rightarrow> error + (yaml \<times> nat)" where
  "transform today py_str swagger_data =
     (case remove_step swagger_data of
        Inl e \<Rightarrow> Inl e
      | Inr (data1, removed_count) \<Rightarrow>
          (case annotate today py_str data1 of
             Inl e \<Rightarrow> Inl e
           | Inr data2 \<Rightarrow> Inr (data2, removed_count)))"

section \<open>The report\<close>









section \<open>Files, the backup and the guarded pipeline\<close>






text \<open>
  Writing a file through \<^verbatim>\<open>open(path, 'w')\<close> can fail in two places: the open
  itself raises and the file is untouched, or the open has truncated the file and the
  write raises after some prefix of the content has reached it. Which of these happens
  is decided by the environment.
\<close>

datatype fault = NoFault | OpenFails | WriteFails nat


text \<open>
  What a run takes from outside the script: the three readings of the clock, the YAML
  loader and dumper, \<^verbatim>\<open>str()\<close>, and the faults of the two writes.
\<close>

record env =
  stamp :: string
  today :: string
  report_now :: string
  safe_load :: "string \<Rightarrow> error + yaml"
  dump :: "yaml \<Rightarrow> string"
  py_str :: "yaml \<Rightarrow> string"
  dump_fault :: fault
  report_fault :: fault




section \<open>Observations on documents and reports\<close>


definition path_keys :: "yaml \<Rightarrow> yaml set" where
  "path_keys D = (case lookup D ''paths'' of None \<Rightarrow> {} | Some p \<Rightarrow> keys p)"

definition description_of :: "yaml \<Rightarrow> yaml option" where
  "description_of D =
     (case lookup D ''info'' of None \<Rightarrow> None | Some i \<Rightarrow> lookup i ''description'')"

definition original_description :: "yaml \<Rightarrow> string" where
  "original_description D = (case description_of D of Some (YStr s) \<Rightarrow> s | _ \<Rightarrow> [])"


section \<open>A sample run\<close>


definition other_document :: yaml where
  "other_document =
     YMap [(YStr ''paths'', YMap [(YStr ''/api/payments/analytics'', YNull),
                                  (YStr ''/b'', YNull)])]"



section \<open>Facts about the removal loop and the annotator\<close>

lemma map_of_None_iff: "(map_of m k = None) = (k \<notin> fst ` set m)"
  by (simp add: map_of_eq_None_iff)

lemma lookup_SomeD: "lookup D s = Some v \<Longrightarrow> \<exists>m. D = YMap m \<and> map_of m (YStr s) = Some v"
  by (cases D) auto


lemma remove_loop_YMap:
  "distinct es \<Longrightarrow>
   remove_loop es (YMap m) n =
     Inr (YMap (filter (\<lambda>(k, v). k \<notin> YStr ` set es) m),
          n + length (filter (\<lambda>e. YStr e \<in> fst ` set m) es))"
proof (induction es arbitrary: m n)
  case Nil
  then show ?case by simp
next
  case (Cons e es)
  have d: "distinct es" and ne: "e \<notin> set es" using Cons.prems by auto
  show ?case
  proof (cases "YStr e \<in> fst ` set m")
    case True
    have f: "filter (\<lambda>(k, v). k \<notin> YStr ` set es) (AList.delete (YStr e) m)
          = filter (\<lambda>(k, v). k \<notin> YStr ` set (e # es)) m"
      by (induction m) (auto simp: AList.delete_eq)
    have s1: "filter (\<lambda>x. YStr x \<in> fst ` set (AList.delete (YStr e) m)) es
           = filter (\<lambda>x. YStr x \<in> fst ` set m) es"
      using ne by (intro filter_cong) (auto simp: AList.delete_eq)
    have "remove_loop (e # es) (YMap m) n
        = remove_loop es (YMap (AList.delete (YStr e) m)) (n + 1)"
      using True by (simp add: map_of_None_iff)
    also have "\<dots> = Inr (YMap (filter (\<lambda>(k, v). k \<notin> YStr ` set (e # es)) m),
          n + 1 + length (filter (\<lambda>x. YStr x \<in> fst ` set m) es))"
      unfolding Cons.IH [OF d] f s1 ..
    finally show ?thesis using True by simp
  next
    case False
    have f: "filter (\<lambda>(k, v). k \<notin> YStr ` set es) m
          = filter (\<lambda>(k, v). k \<notin> YStr ` set (e # es)) m"
      using False by (induction m) auto
    have "remove_loop (e # es) (YMap m) n = remove_loop es (YMap m) n"
      using False by (simp add: map_of_None_iff)
    also have "\<dots> = Inr (YMap (filter (\<lambda>(k, v). k \<notin> YStr ` set (e # es)) m),
          n + length (filter (\<lambda>x. YStr x \<in> fst ` set m) es))"
      unfolding Cons.IH [OF d] f ..
    finally show ?thesis using False by simp
  qed
qed

lemma distinct_unused_endpoints: "distinct unused_endpoints"
  by (simp add: unused_endpoints_def)

lemma hits_card:
  "distinct es \<Longrightarrow> length (filter (\<lambda>e. YStr e \<in> K) es) = card (K \<inter> YStr ` set es)"
proof -
  assume d: "distinct es"
  have "length (filter (\<lambda>e. YStr e \<in> K) es) = card {e \<in> set es. YStr e \<in> K}"
    using d by (simp add: distinct_length_filter Int_def conj_commute)
  also have "\<dots> = card (YStr ` {e \<in> set es. YStr e \<in> K})"
    by (simp add: card_image inj_on_def)
  also have "YStr ` {e \<in> set es. YStr e \<in> K} = K \<inter> YStr ` set es"
    by auto
  finally show ?thesis .
qed

lemma remove_step_YMap:
  assumes "map_of m (YStr ''paths'') = Some (YMap p)"
  shows "remove_step (YMap m) =
     Inr (YMap (AList.update (YStr ''paths'')
                  (YMap (filter (\<lambda>(k, v). k \<notin> YStr ` set unused_endpoints) p)) m),
          length (filter (\<lambda>e. YStr e \<in> fst ` set p) unused_endpoints))"
  using assms
  by (simp add: remove_step_def remove_loop_YMap [OF distinct_unused_endpoints])


text \<open>
  The scenario of the specification: a \<^verbatim>\<open>paths\<close> mapping with one targeted and one
  other endpoint.
\<close>

lemma example_remove_step:
  "remove_step (YMap [(YStr ''paths'',
       YMap [(YStr ''/a'', YNull), (YStr ''/journal-entries/summary'', YNull)])])
   = Inr (YMap [(YStr ''paths'', YMap [(YStr ''/a'', YNull)])], 1)"
  by (simp add: remove_step_def unused_endpoints_def)


lemma remove_step_no_paths:
  "is_mapping D \<Longrightarrow> lookup D ''paths'' = None \<Longrightarrow> remove_step D = Inr (D, 0)"
  by (cases D) (simp_all add: remove_step_def)

lemma remove_loop_miss:
  "YStr e \<notin> keys (YMap p) \<Longrightarrow> remove_loop (e # es) (YMap p) n = remove_loop es (YMap p) n"
  by (simp add: map_of_None_iff)

text \<open>A loop that finds nothing changes nothing, and a finished loop leaves nothing to find.\<close>

lemma remove_loop_no_hits:
  "\<forall>e \<in> set es. py_in e p = Inr False \<Longrightarrow> remove_loop es p k = Inr (p, k)"
  by (induction es) auto

lemma remove_loop_YSeq:
  "remove_loop es (YSeq xs) n = Inr r \<Longrightarrow>
   r = (YSeq xs, n) \<and> (\<forall>e \<in> set es. YStr e \<notin> set xs)"
  by (induction es) (auto split: bool.splits)

lemma remove_loop_YStr:
  "remove_loop es (YStr t) n = Inr r \<Longrightarrow>
   r = (YStr t, n) \<and> (\<forall>e \<in> set es. \<not> sublist e t)"
  by (induction es) (auto split: bool.splits)

lemma remove_loop_result_no_hits:
  assumes "remove_loop es p n = Inr (p', n')" and "distinct es" and "e \<in> set es"
  shows "py_in e p' = Inr False"
proof (cases p)
  case (YMap m)
  with assms show ?thesis
    by (auto simp: remove_loop_YMap map_of_None_iff)
next
  case (YSeq xs)
  with assms remove_loop_YSeq [of es xs n "(p', n')"] show ?thesis by auto
next
  case (YStr t)
  with assms remove_loop_YStr [of es t n "(p', n')"] show ?thesis by auto
next
  case YNull
  with assms show ?thesis by (cases es) auto
next
  case (YBool b)
  with assms show ?thesis by (cases es) auto
next
  case (YInt i)
  with assms show ?thesis by (cases es) auto
next
  case (YScalar s)
  with assms show ?thesis by (cases es) auto
qed

lemma remove_loop_idem:
  assumes "remove_loop es p n = Inr (p', n')" and "distinct es"
  shows "remove_loop es p' k = Inr (p', k)"
  using remove_loop_result_no_hits [OF assms] by (intro remove_loop_no_hits) blast

lemma remove_step_idem:
  assumes "remove_step D = Inr (D1, n)"
  shows "remove_step D1 = Inr (D1, 0)"
proof (cases "py_in ''paths'' D")
  case (Inl e)
  with assms show ?thesis by (simp add: remove_step_def)
next
  case (Inr b)
  show ?thesis
  proof (cases b)
    case False
    with Inr assms show ?thesis by (auto simp: remove_step_def)
  next
    case True
    with Inr assms obtain p where p: "py_getitem D ''paths'' = Inr p"
      by (auto simp: remove_step_def split: sum.splits)
    then obtain m where D: "D = YMap m" and m: "map_of m (YStr ''paths'') = Some p"
      by (cases D) (auto split: option.splits)
    from assms Inr True p obtain p' c' where
      l: "remove_loop unused_endpoints p 0 = Inr (p', n)" and c': "py_len p' = Inr c'"
      and D1: "D1 = YMap (AList.update (YStr ''paths'') p' m)"
      by (auto simp: remove_step_def D split: sum.splits)
    have i: "remove_loop unused_endpoints p' 0 = Inr (p', 0)"
      by (rule remove_loop_idem [OF l distinct_unused_endpoints])
    show ?thesis
      unfolding D1 by (simp add: remove_step_def AList.update_conv' i c')
  qed
qed















section \<open>Facts about the guarded pipeline\<close>













lemma other_remove_step:
  "remove_step other_document = Inr (YMap [(YStr ''paths'', YMap [(YStr ''/b'', YNull)])], 1)"
  by (simp add: other_document_def remove_step_def unused_endpoints_def)


lemma other_transform:
  "transform ''2025-01-01'' (\<lambda>v. []) other_document =
     Inr (YMap [(YStr ''paths'', YMap [(YStr ''/b'', YNull)]),
                (YStr ''info'', YMap [(YStr ''description'', YStr (cleanup_note ''2025-01-01''))])], 1)"
  by (simp add: transform_def other_remove_step annotate_def)







section \<open>The claims\<close>



text \<open>
  Claim C3. Under the same condition, the counter \<^verbatim>\<open>removed_count\<close> at the end of
  the loop is the number of keys of the original \<^verbatim>\<open>paths\<close> mapping that are in the
  removal list.
\<close>

theorem removed_count_is_intersection:
  assumes "lookup D ''paths'' = Some (YMap p)"
  shows "\<exists>D1. remove_step D =
           Inr (D1, card (keys (YMap p) \<inter> YStr ` set unused_endpoints))"
proof -
  from assms obtain m where D: "D = YMap m" and m: "map_of m (YStr ''paths'') = Some (YMap p)"
    by (auto dest: lookup_SomeD)
  show ?thesis
    unfolding D remove_step_YMap [OF m] hits_card [OF distinct_unused_endpoints]
    by simp
qed

theorem removed_count_is_intersection_witness:
  "lookup (YMap [(YStr ''paths'',
       YMap [(YStr ''/a'', YNull), (YStr ''/journal-entries/summary'', YNull)])]) ''paths''
     = Some (YMap [(YStr ''/a'', YNull), (YStr ''/journal-entries/summary'', YNull)]) \<and>
   remove_step (YMap [(YStr ''paths'',
       YMap [(YStr ''/a'', YNull), (YStr ''/journal-entries/summary'', YNull)])])
     = Inr (YMap [(YStr ''paths'', YMap [(YStr ''/a'', YNull)])], 1) \<and>
   card (keys (YMap [(YStr ''/a'', YNull), (YStr ''/journal-entries/summary'', YNull)])
         \<inter> YStr ` set unused_endpoints) = 1"
proof -
  let ?P = "[(YStr ''/a'', YNull), (YStr ''/journal-entries/summary'', YNull)]"
  let ?D = "YMap [(YStr ''paths'', YMap ?P)]"
  have h: "lookup ?D ''paths'' = Some (YMap ?P)" by simp
  from removed_count_is_intersection [OF h]
  show ?thesis
    by (simp add: example_remove_step)
qed

text \<open>
  Claim C7. A mapping document without a \<^verbatim>\<open>paths\<close> key passes the removal step
  unchanged, with a removed count of zero and no error. An entry of the removal list
  that is not a key of the \<^verbatim>\<open>paths\<close> mapping is skipped: the iteration leaves the
  mapping and the counter as they are and the loop goes on.
\<close>

theorem missing_paths_and_entries_are_no_errors:
  "(is_mapping D \<and> lookup D ''paths'' = None \<longrightarrow> remove_step D = Inr (D, 0)) \<and>
   (YStr e \<notin> keys (YMap p) \<longrightarrow>
      remove_loop (e # es) (YMap p) n = remove_loop es (YMap p) n)"
  using remove_step_no_paths remove_loop_miss by blast

theorem missing_paths_and_entries_are_no_errors_witness:
  "is_mapping (YMap [(YStr ''info'', YMap [])]) \<and>
   lookup (YMap [(YStr ''info'', YMap [])]) ''paths'' = None \<and>
   remove_step (YMap [(YStr ''info'', YMap [])]) = Inr (YMap [(YStr ''info'', YMap [])], 0) \<and>
   YStr ''/journal-entries/summary'' \<notin> keys (YMap [(YStr ''/a'', YNull)]) \<and>
   remove_loop [''/journal-entries/summary''] (YMap [(YStr ''/a'', YNull)]) 0
     = Inr (YMap [(YStr ''/a'', YNull)], 0)"
  using missing_paths_and_entries_are_no_errors
    [of "YMap [(YStr ''info'', YMap [])]" "''/journal-entries/summary''"
        "[(YStr ''/a'', YNull)]" "[]" 0]
  by simp

text \<open>
  Claim C8. Whenever the removal step returns, running it again on its result returns
  too, removes nothing more (count zero) and leaves the same \<^verbatim>\<open>paths\<close> key set.
\<close>

theorem removal_idempotent:
  assumes "remove_step D = Inr (D1, n)"
  shows "\<exists>D2. remove_step D1 = Inr (D2, 0) \<and> path_keys D2 = path_keys D1"
  using remove_step_idem [OF assms] by simp

theorem removal_idempotent_witness:
  "remove_step (YMap [(YStr ''paths'',
       YMap [(YStr ''/a'', YNull), (YStr ''/journal-entries/summary'', YNull)])])
     = Inr (YMap [(YStr ''paths'', YMap [(YStr ''/a'', YNull)])], 1) \<and>
   remove_step (YMap [(YStr ''paths'', YMap [(YStr ''/a'', YNull)])])
     = Inr (YMap [(YStr ''paths'', YMap [(YStr ''/a'', YNull)])], 0) \<and>
   path_keys (YMap [(YStr ''paths'', YMap [(YStr ''/a'', YNull)])]) = {YStr ''/a''}"
proof -
  have "remove_step (YMap [(YStr ''paths'', YMap [(YStr ''/a'', YNull)])])
     = Inr (YMap [(YStr ''paths'', YMap [(YStr ''/a'', YNull)])], 0)"
    by (simp add: remove_step_def unused_endpoints_def)
  with removal_idempotent [OF example_remove_step] show ?thesis
    by (simp add: example_remove_step path_keys_def)
qed














end
